theory Spec2Isabelle
  imports Complex_Main "HOL-Library.Sublist" "HOL-Library.Log_Nat"
begin

section \<open>Movie Explorer: the query filter \<open>search_data\<close>\<close>

text \<open>
  The development embeds the function \<open>search_data\<close> of
  \<^verbatim>\<open>GiancristofaroPaolaFinalProject.py\<close> together with the library functions it calls:
  \<^verbatim>\<open>str.strip\<close>, \<^verbatim>\<open>int\<close>, \<^verbatim>\<open>float\<close>, \<^verbatim>\<open>"\n".join\<close>, boolean indexing of a data
  frame and \<^verbatim>\<open>Series.str.contains(pat, case=False, na=False)\<close>.

  Conventions.
  \<^item> A Python \<open>str\<close> is a \<open>string\<close>; a \<open>char\<close> stands for the code point of the same
    number, so the strings covered are those over the code points 0 to 255.
  \<^item> A data frame is the list of its rows in index order. A missing cell (NaN) of a text
    column or of the year column is \<open>None\<close>; the text columns hold strings (object dtype).
  \<^item> A Python \<open>float\<close> is a \<open>pyfloat\<close>: a finite binary64 value is given by the rational
    number it denotes, and \<^verbatim>\<open>float(s)\<close> rounds the decimal text to the nearest such value.
  \<^item> The six entry widgets are given by their texts. What the call does with the message
    boxes, the search window and the results window is its outcome.
\<close>

subsection \<open>\<^verbatim>\<open>str.strip()\<close>\<close>

text \<open>The white space of \<^verbatim>\<open>str.isspace\<close> among the code points below 256.\<close>

definition isspace :: "char \<Rightarrow> bool" where
  "isspace c =
     (let n = (of_char c :: nat)
      in (9 \<le> n \<and> n \<le> 13) \<or> (28 \<le> n \<and> n \<le> 32) \<or> n = 133 \<or> n = 160)"

definition strip :: "string \<Rightarrow> string" where
  "strip s = rev (dropWhile isspace (rev (dropWhile isspace s)))"

subsection \<open>\<^verbatim>\<open>int(s)\<close>\<close>

definition isdigit :: "char \<Rightarrow> bool" where
  "isdigit c = (let n = (of_char c :: nat) in 48 \<le> n \<and> n \<le> 57)"

definition digit_value :: "char \<Rightarrow> int" where
  "digit_value c = int (of_char c) - 48"

text \<open>
  \<open>digitpart s\<close> splits off the longest prefix of \<open>s\<close> of the form
  \<^verbatim>\<open>digit (["_"] digit)*\<close> and returns its digits (underscores dropped) with the rest of
  the string; the digits are empty when \<open>s\<close> does not start with a digit.
\<close>

fun digitpart :: "string \<Rightarrow> string \<times> string" where
  "digitpart [] = ([], [])"
| "digitpart [c] = (if isdigit c then ([c], []) else ([], [c]))"
| "digitpart (c # d # cs) =
     (if \<not> isdigit c then ([], c # d # cs)
      else if d = CHR ''_'' then
        (case cs of
           [] \<Rightarrow> ([c], d # cs)
         | e # es \<Rightarrow>
             if isdigit e then (case digitpart cs of (ds, r) \<Rightarrow> (c # ds, r))
             else ([c], d # cs))
      else (case digitpart (d # cs) of (ds, r) \<Rightarrow> (c # ds, r)))"

definition digits_value :: "string \<Rightarrow> int" where
  "digits_value ds = foldl (\<lambda>n c. 10 * n + digit_value c) 0 ds"

text \<open>An optional sign: the factor it stands for and the rest of the string.\<close>

fun take_sign :: "string \<Rightarrow> int \<times> string" where
  "take_sign [] = (1, [])"
| "take_sign (c # cs) =
     (if c = CHR ''+'' then (1, cs) else if c = CHR ''-'' then (-1, cs) else (1, c # cs))"

text \<open>
  \<open>py_int s\<close> is \<^verbatim>\<open>int(s)\<close> in base 10; \<open>None\<close> stands for the \<open>ValueError\<close> it raises,
  also for a string of more than 4300 digits (the default of
  \<^verbatim>\<open>sys.set_int_max_str_digits\<close>).
\<close>

definition py_int :: "string \<Rightarrow> int option" where
  "py_int s =
     (case take_sign (strip s) of (sg, u) \<Rightarrow>
        (case digitpart u of (ds, r) \<Rightarrow>
           if ds = [] \<or> r \<noteq> [] \<or> length ds > 4300 then None
           else Some (sg * digits_value ds)))"

subsection \<open>\<^verbatim>\<open>float(s)\<close>\<close>

datatype pyfloat = Fin rat | PosInf | NegInf | NaN

text \<open>The comparison \<^verbatim>\<open>a <= b\<close> of two floats; every comparison with NaN is false.\<close>

fun fle :: "pyfloat \<Rightarrow> pyfloat \<Rightarrow> bool" where
  "fle NaN _ = False"
| "fle _ NaN = False"
| "fle NegInf _ = True"
| "fle _ PosInf = True"
| "fle PosInf _ = False"
| "fle _ NegInf = False"
| "fle (Fin a) (Fin b) = (a \<le> b)"

definition pow2 :: "int \<Rightarrow> rat" where
  "pow2 e = (if 0 \<le> e then 2 ^ nat e else 1 / 2 ^ nat (- e))"

text \<open>
  \<open>round_binary64 sg p q\<close>, for \<open>0 \<le> p\<close> and \<open>0 < q\<close>, is the binary64 value nearest to
  \<open>sg * p / q\<close>, ties to even: 53 bits of mantissa, least exponent \<open>-1022\<close>, overflow
  to infinity. \<open>e\<close> is the binary exponent of \<open>p / q\<close> and \<open>2 ^ sh\<close> the unit in the
  last place.
\<close>

definition round_binary64 :: "int \<Rightarrow> int \<Rightarrow> int \<Rightarrow> pyfloat" where
  "round_binary64 sg p q =
     (if p = 0 then Fin 0
      else
        let b = bitlen p - bitlen q;
            e = (if (if 0 \<le> b then q * 2 ^ nat b \<le> p else q \<le> p * 2 ^ nat (- b)) then b else b - 1);
            sh = max e (- 1022) - 52;
            num = (if 0 \<le> sh then p else p * 2 ^ nat (- sh));
            den = (if 0 \<le> sh then q * 2 ^ nat sh else q);
            k = num div den;
            rm = num mod den;
            n = (if 2 * rm < den then k else if den < 2 * rm then k + 1
                 else if even k then k else k + 1)
        in if 1023 < e \<or> (e = 1023 \<and> n = 2 ^ 53)
           then (if sg < 0 then NegInf else PosInf)
           else Fin (of_int (sg * n) * pow2 sh))"

definition tolower :: "char \<Rightarrow> char" where
  "tolower c =
     (let n = (of_char c :: nat)
      in if (65 \<le> n \<and> n \<le> 90) \<or> (192 \<le> n \<and> n \<le> 222 \<and> n \<noteq> 215)
         then char_of (n + 32) else c)"

definition lower :: "string \<Rightarrow> string" where
  "lower s = map tolower s"

text \<open>The exponent part \<^verbatim>\<open>("e" | "E") [sign] digitpart\<close>, or nothing, up to the end.\<close>

definition exponent_part :: "string \<Rightarrow> int option" where
  "exponent_part s =
     (case s of
        [] \<Rightarrow> Some 0
      | c # cs \<Rightarrow>
          if c = CHR ''e'' \<or> c = CHR ''E'' then
            (case take_sign cs of (sg, u) \<Rightarrow>
               (case digitpart u of (ds, r) \<Rightarrow>
                  if ds = [] \<or> r \<noteq> [] then None else Some (sg * digits_value ds)))
          else None)"

text \<open>
  \<open>py_float s\<close> is \<^verbatim>\<open>float(s)\<close>; \<open>None\<close> stands for the \<open>ValueError\<close> it raises. The
  grammar is that of the language reference:
  \<^verbatim>\<open>[sign] (([digitpart] "." digitpart | digitpart ["."]) [exponent] | "inf" | "infinity" | "nan")\<close>.
\<close>

definition py_float :: "string \<Rightarrow> pyfloat option" where
  "py_float s =
     (case take_sign (strip s) of (sg, u) \<Rightarrow>
        if lower u = ''inf'' \<or> lower u = ''infinity'' then Some (if sg < 0 then NegInf else PosInf)
        else if lower u = ''nan'' then Some NaN
        else
          (case digitpart u of (ip, r1) \<Rightarrow>
             (case (case r1 of
                      c # cs \<Rightarrow> if c = CHR ''.'' then digitpart cs else ([], r1)
                    | [] \<Rightarrow> ([], r1)) of (fp, r2) \<Rightarrow>
                if ip = [] \<and> fp = [] then None
                else
                  (case exponent_part r2 of
                     None \<Rightarrow> None
                   | Some ex \<Rightarrow>
                       let m = digits_value (ip @ fp);
                           e10 = ex - int (length fp)
                       in Some (if 0 \<le> e10 then round_binary64 sg (m * 10 ^ nat e10) 1
                                else round_binary64 sg m (10 ^ nat (- e10)))))))"

subsection \<open>\<^verbatim>\<open>"\n".join(msgs)\<close>\<close>

fun join :: "string \<Rightarrow> string list \<Rightarrow> string" where
  "join sep [] = []"
| "join sep [x] = x"
| "join sep (x # y # ys) = x @ sep @ join sep (y # ys)"

subsection \<open>Regular expressions: \<^verbatim>\<open>re.compile(pat, re.IGNORECASE)\<close> and \<^verbatim>\<open>search\<close>\<close>

text \<open>
  \<^verbatim>\<open>Series.str.contains\<close> has \<^verbatim>\<open>regex=True\<close> by default, and \<open>search_data\<close> does not pass
  \<^verbatim>\<open>regex=False\<close>: the text of a query field is compiled as a regular expression of the
  module \<^verbatim>\<open>re\<close>, with the flag \<^verbatim>\<open>IGNORECASE\<close> because of \<^verbatim>\<open>case=False\<close>, and a cell matches
  when \<^verbatim>\<open>search\<close> finds a match anywhere in it.

  The filter below takes the engine as a parameter: a function from the pattern to either
  the exception that compiling raises or the predicate "search finds a match" on strings.
  The general theorems hold for every engine. \<open>py_re\<close> is the engine of \<^verbatim>\<open>re\<close> on the
  patterns made of literal characters, \<^verbatim>\<open>.\<close>, \<^verbatim>\<open>|\<close>, groups \<^verbatim>\<open>( )\<close>, the repeats
  \<^verbatim>\<open>* + ?\<close> with their lazy forms, and a backslash before a character that is no ASCII
  letter or digit. On any other pattern (a character class, a counted repeat, an
  anchor, an extension \<^verbatim>\<open>(?...)\<close>, a possessive repeat, a backslash before a letter or
  digit) \<open>py_re\<close> answers \<open>NotModelled\<close>, and nothing is stated about \<^verbatim>\<open>re\<close> there.
\<close>

type_synonym 'e re_engine = "string \<Rightarrow> 'e + (string \<Rightarrow> bool)"

datatype regex = Never | Empty | Lit char | Dot | Seq regex regex | Alt regex regex | Star regex

datatype re_failure = PatternError | NotModelled

text \<open>Sequence and alternative, without the trivial cases.\<close>

fun seq :: "regex \<Rightarrow> regex \<Rightarrow> regex" where
  "seq Never s = Never"
| "seq r Never = Never"
| "seq Empty s = s"
| "seq r Empty = r"
| "seq r s = Seq r s"

fun alt :: "regex \<Rightarrow> regex \<Rightarrow> regex" where
  "alt Never s = s"
| "alt r Never = r"
| "alt r s = Alt r s"

fun nullable :: "regex \<Rightarrow> bool" where
  "nullable Never = False"
| "nullable Empty = True"
| "nullable (Lit d) = False"
| "nullable Dot = False"
| "nullable (Seq r s) = (nullable r \<and> nullable s)"
| "nullable (Alt r s) = (nullable r \<or> nullable s)"
| "nullable (Star r) = True"

text \<open>
  \<open>deriv c r\<close> matches what \<open>r\<close> matches after a first character \<open>c\<close>. Under
  \<^verbatim>\<open>IGNORECASE\<close> a literal matches a character with the same lower case; \<^verbatim>\<open>.\<close> matches
  every character but the newline.
\<close>

fun deriv :: "char \<Rightarrow> regex \<Rightarrow> regex" where
  "deriv c Never = Never"
| "deriv c Empty = Never"
| "deriv c (Lit d) = (if tolower c = tolower d then Empty else Never)"
| "deriv c Dot = (if c = CHR 0x0A then Never else Empty)"
| "deriv c (Seq r s) = alt (seq (deriv c r) s) (if nullable r then deriv c s else Never)"
| "deriv c (Alt r s) = alt (deriv c r) (deriv c s)"
| "deriv c (Star r) = seq (deriv c r) (Star r)"

text \<open>\<open>match_prefix r s\<close>: some prefix of \<open>s\<close> matches \<open>r\<close>.\<close>

fun match_prefix :: "regex \<Rightarrow> string \<Rightarrow> bool" where
  "match_prefix r [] = nullable r"
| "match_prefix r (c # cs) = (nullable r \<or> match_prefix (deriv c r) cs)"

text \<open>\<open>re_search r s\<close>: \<^verbatim>\<open>r.search(s) is not None\<close>, a match at some position of \<open>s\<close>.\<close>

fun re_search :: "regex \<Rightarrow> string \<Rightarrow> bool" where
  "re_search r [] = nullable r"
| "re_search r (c # cs) = (match_prefix r (c # cs) \<or> re_search r cs)"

text \<open>
  The parser reads the pattern from left to right. Its state holds the enclosing groups
  (for each, the finished branches and the items read before the group was opened), the
  finished branches of the current group and the items of the current branch, all last
  first; an item carries a flag that tells that it is a repeat already.
\<close>

datatype pmode = Normal | AfterRepeat | AfterOpen | AfterBackslash

record pstate =
  stack :: "(regex list \<times> (regex \<times> bool) list) list"
  branches :: "regex list"
  items :: "(regex \<times> bool) list"
  mode :: pmode

definition seq_items :: "(regex \<times> bool) list \<Rightarrow> regex" where
  "seq_items its = fold (\<lambda>it acc. seq (fst it) acc) its Empty"

definition close_group :: "regex list \<Rightarrow> (regex \<times> bool) list \<Rightarrow> regex" where
  "close_group bs its = fold (\<lambda>b acc. Alt b acc) bs (seq_items its)"

definition repeat :: "char \<Rightarrow> regex \<Rightarrow> regex" where
  "repeat c r =
     (if c = CHR ''*'' then Star r else if c = CHR ''+'' then Seq r (Star r) else Alt r Empty)"

definition isalnum_ascii :: "char \<Rightarrow> bool" where
  "isalnum_ascii c =
     (let n = (of_char c :: nat)
      in (48 \<le> n \<and> n \<le> 57) \<or> (65 \<le> n \<and> n \<le> 90) \<or> (97 \<le> n \<and> n \<le> 122))"

definition push_item :: "regex \<Rightarrow> pstate \<Rightarrow> pstate" where
  "push_item r st = st\<lparr>items := (r, False) # items st, mode := Normal\<rparr>"

text \<open>
  One character of the pattern. The errors are those of the parser of \<^verbatim>\<open>re\<close>: "nothing to
  repeat", "multiple repeat", "unbalanced parenthesis".
\<close>

definition re_step :: "pstate \<Rightarrow> char \<Rightarrow> re_failure + pstate" where
  "re_step st c =
     (if mode st = AfterBackslash then
        (if isalnum_ascii c then Inl NotModelled else Inr (push_item (Lit c) st))
      else if mode st = AfterRepeat \<and> c = CHR ''?'' then Inr (st\<lparr>mode := Normal\<rparr>)
      else if mode st = AfterRepeat \<and> c = CHR ''+'' then Inl NotModelled
      else if mode st = AfterOpen \<and> c = CHR ''?'' then Inl NotModelled
      else if c = CHR 0x5C then Inr (st\<lparr>mode := AfterBackslash\<rparr>)
      else if c = CHR ''.'' then Inr (push_item Dot st)
      else if c = CHR ''*'' \<or> c = CHR ''+'' \<or> c = CHR ''?'' then
        (case items st of
           [] \<Rightarrow> Inl PatternError
         | it # its \<Rightarrow>
             if snd it then Inl PatternError
             else Inr (st\<lparr>items := (repeat c (fst it), True) # its, mode := AfterRepeat\<rparr>))
      else if c = CHR ''('' then
        Inr \<lparr>stack = (branches st, items st) # stack st, branches = [], items = [],
             mode = AfterOpen\<rparr>
      else if c = CHR '')'' then
        (case stack st of
           [] \<Rightarrow> Inl PatternError
         | fr # sk \<Rightarrow>
             Inr \<lparr>stack = sk, branches = fst fr,
                  items = (close_group (branches st) (items st), False) # snd fr,
                  mode = Normal\<rparr>)
      else if c = CHR ''|'' then
        Inr (st\<lparr>branches := seq_items (items st) # branches st, items := [], mode := Normal\<rparr>)
      else if c = CHR ''['' \<or> c = CHR ''{'' \<or> c = CHR ''^'' \<or> c = CHR ''$'' then Inl NotModelled
      else Inr (push_item (Lit c) st))"

text \<open>
  The end of the pattern: "bad escape (end of pattern)" after a lone backslash,
  "missing ), unterminated subpattern" when a group is still open.
\<close>

definition re_finish :: "pstate \<Rightarrow> re_failure + regex" where
  "re_finish st =
     (if mode st = AfterBackslash \<or> stack st \<noteq> [] then Inl PatternError
      else Inr (close_group (branches st) (items st)))"

fun re_parse :: "pstate \<Rightarrow> string \<Rightarrow> re_failure + regex" where
  "re_parse st [] = re_finish st"
| "re_parse st (c # cs) =
     (case re_step st c of Inl f \<Rightarrow> Inl f | Inr st' \<Rightarrow> re_parse st' cs)"

definition re_compile :: "string \<Rightarrow> re_failure + regex" where
  "re_compile pat = re_parse \<lparr>stack = [], branches = [], items = [], mode = Normal\<rparr> pat"

definition py_re :: "re_failure re_engine" where
  "py_re pat = (case re_compile pat of Inl f \<Rightarrow> Inl f | Inr r \<Rightarrow> Inr (re_search r))"

subsection \<open>The data frame and the entries\<close>

text \<open>
  A row of the data frame, with the six columns that \<open>search_data\<close> reads. \<open>None\<close> is a
  missing cell of a text column or of the year column; a missing rating is \<open>NaN\<close>.
\<close>

record movie =
  title :: "string option"
  genre :: "string option"
  year :: "int option"
  rating :: pyfloat
  actors :: "string option"
  director :: "string option"

text \<open>The texts of the six entry widgets at the time of the call.\<close>

record query =
  title_entry :: string
  genre_entry :: string
  release_date_entry :: string
  rating_entry :: string
  actor_entry :: string
  director_entry :: string

text \<open>
  \<open>str_contains re pat col\<close> is \<^verbatim>\<open>col.str.contains(pat, case=False, na=False)\<close>: the pattern
  is compiled once, also for an empty column, and a missing cell gives \<open>False\<close>.
\<close>

definition str_contains :: "'e re_engine \<Rightarrow> string \<Rightarrow> string option list \<Rightarrow> 'e + bool list" where
  "str_contains re pat col =
     (case re pat of
        Inl e \<Rightarrow> Inl e
      | Inr found \<Rightarrow> Inr (map (\<lambda>cell. case cell of None \<Rightarrow> False | Some s \<Rightarrow> found s) col))"

text \<open>Boolean indexing \<^verbatim>\<open>frame[mask]\<close>: the rows whose mask is true, in the order of the frame.\<close>

definition select_rows :: "'a list \<Rightarrow> bool list \<Rightarrow> 'a list" where
  "select_rows rows flags = map fst (filter snd (zip rows flags))"

subsection \<open>\<open>show_results\<close> and \<open>search_data\<close>\<close>

text \<open>
  What a call does, as seen by the user: an error dialog with its title and message
  (\<^verbatim>\<open>messagebox.showerror\<close>), the results window with its rows, or an exception that
  leaves \<open>search_data\<close> (the search button then stays disabled).
\<close>

datatype 'e outcome = Showerror string string | ResultsWindow "movie list" | Raised 'e

definition show_results :: "movie list \<Rightarrow> string option \<Rightarrow> 'e outcome" where
  "show_results data_shown error_msg =
     (if data_shown = [] \<or> (error_msg \<noteq> None \<and> error_msg \<noteq> Some []) then
        Showerror ''Error''
          (if error_msg \<noteq> None \<and> error_msg \<noteq> Some [] then the error_msg
           else ''No results found. Please try different search criteria.'')
      else ResultsWindow data_shown)"

text \<open>The local variables of \<open>search_data\<close> that the filter blocks read and assign.\<close>

record locals =
  data :: "movie list"
  filtered_data :: "movie list"
  error_msgs :: "string list"

text \<open>
  The block of a text field (title, genre, actor, director):
  \<^verbatim>\<open>if q: filtered_data = filtered_data[filtered_data[col].str.contains(q, case=False, na=False)]\<close>.
\<close>

definition text_filter ::
    "'e re_engine \<Rightarrow> (movie \<Rightarrow> string option) \<Rightarrow> string \<Rightarrow> locals \<Rightarrow> 'e + locals" where
  "text_filter re col text_query st =
     (if text_query = [] then Inr st
      else
        (case str_contains re text_query (map col (filtered_data st)) of
           Inl e \<Rightarrow> Inl e
         | Inr flags \<Rightarrow> Inr (st\<lparr>filtered_data := select_rows (filtered_data st) flags\<rparr>)))"

text \<open>The block of the release date, lines 110 to 122.\<close>

definition release_date_filter :: "string \<Rightarrow> locals \<Rightarrow> locals" where
  "release_date_filter release_date_query st =
     (if release_date_query = [] then st
      else
        (case py_int release_date_query of
           Some release_year \<Rightarrow>
             if \<not> (1920 \<le> release_year \<and> release_year \<le> 2022) then
               st\<lparr>error_msgs := error_msgs st @
                    [''Invalid year. Please enter a year between 1920 and 2022.'']\<rparr>
             else
               st\<lparr>filtered_data := select_rows (filtered_data st)
                    (map (\<lambda>y. y = Some release_year) (map year (filtered_data st)))\<rparr>
         | None \<Rightarrow>
             st\<lparr>error_msgs := error_msgs st @
                  [''Release year must be an integer between 1920 and 2022.'']\<rparr>))"

text \<open>The block of the rating, lines 125 to 137.\<close>

definition rating_filter :: "string \<Rightarrow> locals \<Rightarrow> locals" where
  "rating_filter rating_query st =
     (if rating_query = [] then st
      else
        (case py_float rating_query of
           Some rating_num \<Rightarrow>
             if \<not> (fle (Fin 1) rating_num \<and> fle rating_num (Fin 10)) then
               st\<lparr>error_msgs := error_msgs st @ [''Rating should be between 1 and 10.'']\<rparr>
             else
               st\<lparr>filtered_data := select_rows (filtered_data st)
                    (map (\<lambda>x. fle rating_num x) (map rating (filtered_data st)))\<rparr>
         | None \<Rightarrow>
             st\<lparr>error_msgs := error_msgs st @
                  [''Invalid rating. Please enter a number between 1 and 10.'']\<rparr>))"

text \<open>Sequencing of blocks that may raise.\<close>

definition and_then :: "'e + 'a \<Rightarrow> ('a \<Rightarrow> 'e + 'b) \<Rightarrow> 'e + 'b" where
  "and_then m f = (case m of Inl e \<Rightarrow> Inl e | Inr x \<Rightarrow> f x)"

text \<open>The six blocks in the order of the source, lines 96 to 145.\<close>

definition apply_filters :: "'e re_engine \<Rightarrow> movie list \<Rightarrow> query \<Rightarrow> 'e + locals" where
  "apply_filters re frame q =
     and_then (text_filter re title (strip (title_entry q))
                 \<lparr>data = frame, filtered_data = frame, error_msgs = []\<rparr>) (\<lambda>st1.
     and_then (text_filter re genre (strip (genre_entry q)) st1) (\<lambda>st2.
     and_then (Inr (release_date_filter (strip (release_date_entry q)) st2)) (\<lambda>st3.
     and_then (Inr (rating_filter (strip (rating_entry q)) st3)) (\<lambda>st4.
     and_then (text_filter re actors (strip (actor_entry q)) st4) (\<lambda>st5.
     text_filter re director (strip (director_entry q)) st5)))))"

text \<open>\<^verbatim>\<open>any([...])\<close> of the six stripped texts: some text is not empty.\<close>

definition any_field :: "query \<Rightarrow> bool" where
  "any_field q =
     list_ex (\<lambda>s. s \<noteq> [])
       [strip (title_entry q), strip (genre_entry q), strip (release_date_entry q),
        strip (rating_entry q), strip (actor_entry q), strip (director_entry q)]"

text \<open>
  \<open>run_search\<close> is \<open>search_data\<close> with the frame bound to \<open>data\<close> at the end of the call
  as a second result; \<open>search_data\<close> is what the user sees.
\<close>

definition run_search :: "'e re_engine \<Rightarrow> movie list \<Rightarrow> query \<Rightarrow> 'e outcome \<times> movie list" where
  "run_search re frame q =
     (if \<not> any_field q then
        (Showerror ''Input Required'' ''Please enter search criteria in at least one field.'',
         frame)
      else
        (case apply_filters re frame q of
           Inl e \<Rightarrow> (Raised e, frame)
         | Inr st \<Rightarrow>
             if error_msgs st \<noteq> [] \<or> filtered_data st = [] then
               (Showerror ''Search Error''
                  (join [CHR 0x0A]
                     (if error_msgs st = [] then
                        error_msgs st @ [''No results found. Please adjust your search criteria.'']
                      else error_msgs st)),
                data st)
             else (show_results (filtered_data st) None, data st)))"

definition search_data :: "'e re_engine \<Rightarrow> movie list \<Rightarrow> query \<Rightarrow> 'e outcome" where
  "search_data re frame q = fst (run_search re frame q)"

subsection \<open>The records and queries of the scenarios\<close>

definition inception :: movie where
  "inception =
     \<lparr>title = Some ''Inception'', genre = Some ''Sci-Fi'', year = Some 2010,
      rating = Fin (2476979795053773 / 281474976710656),
      actors = Some ''Leonardo DiCaprio'', director = Some ''Christopher Nolan''\<rparr>"

definition matrix_reloaded :: movie where
  "matrix_reloaded =
     \<lparr>title = Some ''The Matrix Reloaded'', genre = Some ''Action'', year = Some 2003,
      rating = Fin (29 / 4),
      actors = Some ''Keanu Reeves'', director = Some ''Lana Wachowski''\<rparr>"

definition untitled :: movie where
  "untitled =
     \<lparr>title = None, genre = None, year = Some 2010, rating = Fin 9,
      actors = None, director = None\<rparr>"

definition mr_nobody :: movie where
  "mr_nobody =
     \<lparr>title = Some ''Mr. Nobody'', genre = Some ''Drama'', year = Some 2009,
      rating = Fin (31 / 4),
      actors = Some ''Jared Leto'', director = Some ''Jaco Van Dormael''\<rparr>"

definition days_of_summer :: movie where
  "days_of_summer =
     \<lparr>title = Some ''(500) Days of Summer'', genre = Some ''Comedy'', year = Some 2009,
      rating = Fin (61 / 8),
      actors = Some ''Zooey Deschanel'', director = Some ''Marc Webb''\<rparr>"

definition no_query :: query where
  "no_query =
     \<lparr>title_entry = [], genre_entry = [], release_date_entry = [], rating_entry = [],
      actor_entry = [], director_entry = []\<rparr>"

subsection \<open>The predicates that the blocks apply\<close>

text \<open>
  The definitions of this subsection are read off the code: they name, for each block of
  \<open>search_data\<close>, the test by which it keeps a row.

  The blocks of the release date and of the rating filter only when the text passes the
  checks of lines 113 to 114 and 128 to 129: it parses and the number is in the range.
\<close>

definition year_valid :: "string \<Rightarrow> bool" where
  "year_valid yq = (case py_int yq of Some y \<Rightarrow> 1920 \<le> y \<and> y \<le> 2022 | None \<Rightarrow> False)"

definition rating_valid :: "string \<Rightarrow> bool" where
  "rating_valid rq =
     (case py_float rq of Some x \<Rightarrow> fle (Fin 1) x \<and> fle x (Fin 10) | None \<Rightarrow> False)"

definition year_predicate :: "string \<Rightarrow> movie \<Rightarrow> bool" where
  "year_predicate yq r = (if year_valid yq then year r = py_int yq else True)"

definition rating_predicate :: "string \<Rightarrow> movie \<Rightarrow> bool" where
  "rating_predicate rq r =
     (case py_float rq of
        Some x \<Rightarrow> if fle (Fin 1) x \<and> fle x (Fin 10) then fle x (rating r) else True
      | None \<Rightarrow> True)"

text \<open>
  The block of a text field keeps the rows in whose cell the engine finds the pattern
  (lines 103, 107, 141 and 145): a search for a regular expression, not for a substring. It
  keeps every row when the field is empty, and the test is of no use when the pattern does
  not compile, since the block raises then.
\<close>

definition applied_text_predicate ::
    "'e re_engine \<Rightarrow> (movie \<Rightarrow> string option) \<Rightarrow> string \<Rightarrow> movie \<Rightarrow> bool" where
  "applied_text_predicate re col tq r =
     (if tq = [] then True
      else
        (case re tq of
           Inl e \<Rightarrow> False
         | Inr found \<Rightarrow> (case col r of None \<Rightarrow> False | Some s \<Rightarrow> found s)))"

definition compiles :: "'e re_engine \<Rightarrow> string \<Rightarrow> bool" where
  "compiles re tq = (if tq = [] then True else (case re tq of Inl e \<Rightarrow> False | Inr found \<Rightarrow> True))"

definition patterns_compile :: "'e re_engine \<Rightarrow> query \<Rightarrow> bool" where
  "patterns_compile re q =
     (compiles re (strip (title_entry q)) \<and> compiles re (strip (genre_entry q)) \<and>
      compiles re (strip (actor_entry q)) \<and> compiles re (strip (director_entry q)))"

text \<open>The conjunction of the six tests, and one filter of the frame with it.\<close>

definition applied_predicates :: "'e re_engine \<Rightarrow> query \<Rightarrow> movie \<Rightarrow> bool" where
  "applied_predicates re q r =
     (applied_text_predicate re title (strip (title_entry q)) r \<and>
      applied_text_predicate re genre (strip (genre_entry q)) r \<and>
      year_predicate (strip (release_date_entry q)) r \<and>
      rating_predicate (strip (rating_entry q)) r \<and>
      applied_text_predicate re actors (strip (actor_entry q)) r \<and>
      applied_text_predicate re director (strip (director_entry q)) r)"

definition single_pass :: "'e re_engine \<Rightarrow> movie list \<Rightarrow> query \<Rightarrow> movie list" where
  "single_pass re frame q = filter (applied_predicates re q) frame"

text \<open>
  The validation errors of a query are the messages that the blocks of the release date and
  of the rating append to \<open>error_msgs\<close>; they depend on the two texts only.
\<close>

definition no_locals :: locals where
  "no_locals = \<lparr>data = [], filtered_data = [], error_msgs = []\<rparr>"

definition year_errors :: "string \<Rightarrow> string list" where
  "year_errors yq = error_msgs (release_date_filter yq no_locals)"

definition rating_errors :: "string \<Rightarrow> string list" where
  "rating_errors rq = error_msgs (rating_filter rq no_locals)"

definition validation_errors :: "query \<Rightarrow> string list" where
  "validation_errors q =
     year_errors (strip (release_date_entry q)) @ rating_errors (strip (rating_entry q))"

subsection \<open>The predicates of the specification\<close>

text \<open>
  The definitions of this subsection follow the words of the specification, not the code.
  For title, genre, actor and director: "matching is case-insensitive substring containment
  against the corresponding Record attribute. Empty field: predicate always true"; a
  missing attribute matches no text. For the year, "if valid, predicate is exact equality";
  for the rating, "Record rating \<ge> query rating"; a field that is empty or not valid puts
  no predicate. The match set of a query is "the conjunction (logical AND) of all active
  predicates over the Dataset, preserving original record order".
\<close>

definition contains_ci :: "string \<Rightarrow> string \<Rightarrow> bool" where
  "contains_ci p s = sublist (lower p) (lower s)"

definition spec_text_predicate :: "(movie \<Rightarrow> string option) \<Rightarrow> string \<Rightarrow> movie \<Rightarrow> bool" where
  "spec_text_predicate col tq r =
     (if tq = [] then True
      else (case col r of None \<Rightarrow> False | Some s \<Rightarrow> contains_ci tq s))"

definition spec_predicates :: "query \<Rightarrow> movie \<Rightarrow> bool" where
  "spec_predicates q r =
     (spec_text_predicate title (strip (title_entry q)) r \<and>
      spec_text_predicate genre (strip (genre_entry q)) r \<and>
      year_predicate (strip (release_date_entry q)) r \<and>
      rating_predicate (strip (rating_entry q)) r \<and>
      spec_text_predicate actors (strip (actor_entry q)) r \<and>
      spec_text_predicate director (strip (director_entry q)) r)"

definition spec_match_set :: "movie list \<Rightarrow> query \<Rightarrow> movie list" where
  "spec_match_set frame q = filter (spec_predicates q) frame"

text \<open>
  The characters that are special in a pattern of \<^verbatim>\<open>re\<close>, and the queries whose text fields
  have none. \<open>literal p\<close> is the regular expression that the parser builds for a text \<open>p\<close>
  without special characters.
\<close>

definition metachar :: "char \<Rightarrow> bool" where
  "metachar c =
     (c = CHR ''.'' \<or> c = CHR 0x5C \<or> c = CHR ''['' \<or> c = CHR ''{'' \<or> c = CHR ''('' \<or>
      c = CHR '')'' \<or> c = CHR ''*'' \<or> c = CHR ''+'' \<or> c = CHR ''?'' \<or> c = CHR ''^'' \<or>
      c = CHR ''$'' \<or> c = CHR ''|'')"

definition plain_text :: "string \<Rightarrow> bool" where
  "plain_text tq = list_all (\<lambda>c. \<not> metachar c) tq"

definition plain_query :: "query \<Rightarrow> bool" where
  "plain_query q =
     (plain_text (strip (title_entry q)) \<and> plain_text (strip (genre_entry q)) \<and>
      plain_text (strip (actor_entry q)) \<and> plain_text (strip (director_entry q)))"

fun literal :: "string \<Rightarrow> regex" where
  "literal [] = Empty"
| "literal (c # cs) = seq (Lit c) (literal cs)"

text \<open>The messages of \<open>search_data\<close>.\<close>

definition empty_query_msg :: string where
  "empty_query_msg = ''Please enter search criteria in at least one field.''"

definition no_results_msg :: string where
  "no_results_msg = ''No results found. Please adjust your search criteria.''"

definition year_range_msg :: string where
  "year_range_msg = ''Invalid year. Please enter a year between 1920 and 2022.''"

definition year_integer_msg :: string where
  "year_integer_msg = ''Release year must be an integer between 1920 and 2022.''"

definition rating_range_msg :: string where
  "rating_range_msg = ''Rating should be between 1 and 10.''"

definition rating_number_msg :: string where
  "rating_number_msg = ''Invalid rating. Please enter a number between 1 and 10.''"

definition sample_frame :: "movie list" where
  "sample_frame = [inception, matrix_reloaded, untitled]"

section \<open>Facts about the library functions\<close>

lemma select_rows_map: "select_rows rows (map f rows) = filter f rows"
  by (induction rows) (simp_all add: select_rows_def)

lemma dropWhile_all_iff: "(\<forall>c \<in> set (dropWhile P s). P c) \<longleftrightarrow> dropWhile P s = []"
proof
  assume all: "\<forall>c \<in> set (dropWhile P s). P c"
  show "dropWhile P s = []"
  proof (rule ccontr)
    assume ne: "dropWhile P s \<noteq> []"
    then have "\<not> P (hd (dropWhile P s))" by (rule hd_dropWhile)
    moreover from ne have "hd (dropWhile P s) \<in> set (dropWhile P s)" by simp
    ultimately show False using all by blast
  qed
next
  assume "dropWhile P s = []"
  then show "\<forall>c \<in> set (dropWhile P s). P c" by (simp del: dropWhile_eq_Nil_conv)
qed

lemma strip_empty_iff: "strip s = [] \<longleftrightarrow> (\<forall>c \<in> set s. isspace c)"
proof -
  have "strip s = [] \<longleftrightarrow> (\<forall>c \<in> set (dropWhile isspace s). isspace c)"
    by (simp add: strip_def)
  also have "\<dots> \<longleftrightarrow> dropWhile isspace s = []"
    by (rule dropWhile_all_iff)
  also have "\<dots> \<longleftrightarrow> (\<forall>c \<in> set s. isspace c)"
    by simp
  finally show ?thesis .
qed

lemma strip_Nil: "strip [] = []"
  by (simp add: strip_def)

lemma py_float_empty: "py_float [] = None"
  by (simp add: py_float_def strip_def lower_def)

lemma join_single: "join sep [x] = x"
  by simp

lemma join_pair: "join sep [x, y] = x @ sep @ y"
  by simp

lemma strip_1800: "strip ''1800'' = ''1800''"
  by code_simp

lemma py_int_1800: "py_int ''1800'' = Some 1800"
  by code_simp

lemma strip_2010: "strip ''2010'' = ''2010''"
  by code_simp

lemma py_int_2010: "py_int ''2010'' = Some 2010"
  by code_simp

lemma strip_8: "strip ''8'' = ''8''"
  by code_simp

lemma py_float_8: "py_float ''8'' = Some (Fin 8)"
  by code_simp

lemma py_float_rating_inception: "py_float ''8.8'' = Some (rating inception)"
  by code_simp

lemma py_float_rounds: "py_float ''10.0000000000000001'' = Some (Fin 10)"
  by code_simp

section \<open>The filter blocks and the whole call\<close>

text \<open>
  Each block is the filter of its predicate. When every pattern compiles, the six blocks
  together are the single pass with the conjunction of the predicates; otherwise the first
  block whose pattern does not compile raises.
\<close>

lemma text_filter_empty: "text_filter re col [] st = Inr st"
  by (simp add: text_filter_def)

lemma text_filter_found:
  assumes "tq \<noteq> []" and "re tq = Inr found"
  shows "text_filter re col tq st =
     Inr (st\<lparr>filtered_data :=
            filter (\<lambda>r. case col r of None \<Rightarrow> False | Some s \<Rightarrow> found s) (filtered_data st)\<rparr>)"
  using assms by (simp add: text_filter_def str_contains_def select_rows_map comp_def)

lemma text_filter_raised:
  assumes "tq \<noteq> []" and "re tq = Inl e"
  shows "text_filter re col tq st = Inl e"
  using assms by (simp add: text_filter_def str_contains_def)

lemma text_filter_unfold:
  "text_filter re col tq st =
     (if tq = [] then Inr st
      else
        (case re tq of
           Inl e \<Rightarrow> Inl e
         | Inr found \<Rightarrow>
             Inr (st\<lparr>filtered_data :=
                    filter (\<lambda>r. case col r of None \<Rightarrow> False | Some s \<Rightarrow> found s)
                      (filtered_data st)\<rparr>)))"
  by (simp add: text_filter_def str_contains_def select_rows_map comp_def split: sum.splits)

lemma text_filter_compiles:
  assumes "compiles re tq"
  shows "text_filter re col tq st =
     Inr (st\<lparr>filtered_data := filter (applied_text_predicate re col tq) (filtered_data st)\<rparr>)"
proof (cases "tq = []")
  case True
  then show ?thesis by (simp add: text_filter_empty applied_text_predicate_def)
next
  case False
  with assms obtain found where f: "re tq = Inr found"
    by (auto simp: compiles_def split: sum.splits)
  have "applied_text_predicate re col tq = (\<lambda>r. case col r of None \<Rightarrow> False | Some s \<Rightarrow> found s)"
    using False f by (simp add: applied_text_predicate_def fun_eq_iff)
  then show ?thesis using False f by (simp add: text_filter_found)
qed

lemma text_filter_raises:
  assumes "\<not> compiles re tq"
  shows "\<exists>e. text_filter re col tq st = Inl e"
proof -
  from assms have ne: "tq \<noteq> []" by (auto simp: compiles_def)
  with assms obtain e where "re tq = Inl e"
    by (auto simp: compiles_def split: sum.splits)
  with ne show ?thesis by (auto simp: text_filter_raised)
qed

lemma release_date_filter_eq:
  "release_date_filter yq st =
     st\<lparr>filtered_data := filter (year_predicate yq) (filtered_data st),
        error_msgs := error_msgs st @ year_errors yq\<rparr>"
proof (cases "yq = []")
  case True
  then show ?thesis
    by (simp add: release_date_filter_def year_predicate_def [abs_def] year_valid_def
        year_errors_def no_locals_def py_int_def strip_def)
next
  case False
  then show ?thesis
    by (cases "py_int yq")
       (auto simp add: release_date_filter_def year_predicate_def [abs_def] year_valid_def
          year_errors_def no_locals_def select_rows_map comp_def)
qed

lemma rating_filter_eq:
  "rating_filter rq st =
     st\<lparr>filtered_data := filter (rating_predicate rq) (filtered_data st),
        error_msgs := error_msgs st @ rating_errors rq\<rparr>"
proof (cases "rq = []")
  case True
  then show ?thesis
    by (simp add: rating_filter_def rating_predicate_def [abs_def] rating_errors_def
        no_locals_def py_float_empty)
next
  case False
  then show ?thesis
    by (cases "py_float rq")
       (auto simp add: rating_filter_def rating_predicate_def [abs_def] rating_errors_def
          no_locals_def select_rows_map comp_def)
qed

lemma apply_filters_compiles:
  assumes "patterns_compile re q"
  shows "apply_filters re frame q =
     Inr \<lparr>data = frame, filtered_data = single_pass re frame q,
          error_msgs = validation_errors q\<rparr>"
proof -
  from assms have c: "compiles re (strip (title_entry q))" "compiles re (strip (genre_entry q))"
      "compiles re (strip (actor_entry q))" "compiles re (strip (director_entry q))"
    by (simp_all add: patterns_compile_def)
  show ?thesis
    by (simp add: apply_filters_def and_then_def text_filter_compiles [OF c(1)]
        text_filter_compiles [OF c(2)] text_filter_compiles [OF c(3)]
        text_filter_compiles [OF c(4)] release_date_filter_eq rating_filter_eq
        single_pass_def applied_predicates_def [abs_def] validation_errors_def conj_ac)
qed

lemma apply_filters_raises:
  assumes "\<not> patterns_compile re q"
  shows "\<exists>e. apply_filters re frame q = Inl e"
proof -
  have "\<exists>e. and_then (text_filter re col tq st) f = Inl e" if "\<not> compiles re tq"
    for col tq st and f :: "locals \<Rightarrow> 'a + locals"
    using text_filter_raises [OF that, of col st] by (auto simp: and_then_def)
  note raise = this
  show ?thesis
  proof (cases "compiles re (strip (title_entry q))")
    case False
    then show ?thesis unfolding apply_filters_def by (rule raise)
  next
    case t: True
    show ?thesis
    proof (cases "compiles re (strip (genre_entry q))")
      case False
      then show ?thesis
        unfolding apply_filters_def text_filter_compiles [OF t]
        by (simp add: and_then_def raise [unfolded and_then_def])
    next
      case g: True
      show ?thesis
      proof (cases "compiles re (strip (actor_entry q))")
        case False
        then show ?thesis
          unfolding apply_filters_def text_filter_compiles [OF t] text_filter_compiles [OF g]
          by (simp add: and_then_def raise [unfolded and_then_def])
      next
        case a: True
        with assms t g have d: "\<not> compiles re (strip (director_entry q))"
          by (simp add: patterns_compile_def)
        show ?thesis
          unfolding apply_filters_def text_filter_compiles [OF t] text_filter_compiles [OF g]
            text_filter_compiles [OF a]
          using text_filter_raises [OF d] by (simp add: and_then_def)
      qed
    qed
  qed
qed

lemma apply_filters_raise_any_frame:
  "apply_filters re frame q = Inl e \<Longrightarrow> apply_filters re frame' q = Inl e"
  by (auto simp: apply_filters_def and_then_def text_filter_unfold split: sum.splits if_splits)

lemmas msg_defs = empty_query_msg_def no_results_msg_def year_range_msg_def year_integer_msg_def
  rating_range_msg_def rating_number_msg_def

lemma year_errors_eq:
  "year_errors yq =
     (if yq = [] \<or> year_valid yq then []
      else if py_int yq = None then [year_integer_msg] else [year_range_msg])"
  by (auto simp: year_errors_def release_date_filter_def no_locals_def year_valid_def msg_defs
        split: option.splits)

lemma rating_errors_eq:
  "rating_errors rq =
     (if rq = [] \<or> rating_valid rq then []
      else if py_float rq = None then [rating_number_msg] else [rating_range_msg])"
  by (auto simp: rating_errors_def rating_filter_def no_locals_def rating_valid_def msg_defs
        split: option.splits)

lemma year_errors_Nil: "year_errors [] = []"
  by (simp add: year_errors_eq)

lemma rating_errors_Nil: "rating_errors [] = []"
  by (simp add: rating_errors_eq)

lemma compiles_Nil: "compiles re []"
  by (simp add: compiles_def)

lemma year_predicate_Nil: "year_predicate [] = (\<lambda>r. True)"
  by (simp add: year_predicate_def [abs_def] year_valid_def py_int_def strip_Nil)

lemma rating_predicate_Nil: "rating_predicate [] = (\<lambda>r. True)"
  by (simp add: rating_predicate_def [abs_def] py_float_empty)

lemma applied_text_predicate_Nil: "applied_text_predicate re col [] = (\<lambda>r. True)"
  by (simp add: applied_text_predicate_def [abs_def])

lemma any_field_iff:
  "any_field q \<longleftrightarrow>
     \<not> (\<forall>s \<in> set [title_entry q, genre_entry q, release_date_entry q, rating_entry q,
                    actor_entry q, director_entry q]. \<forall>c \<in> set s. isspace c)"
  by (simp add: any_field_def strip_empty_iff)

lemma run_search_no_field:
  "\<not> any_field q \<Longrightarrow>
   run_search re frame q = (Showerror ''Input Required'' empty_query_msg, frame)"
  by (simp add: run_search_def empty_query_msg_def)

lemma run_search_raises:
  assumes "any_field q" and "\<not> patterns_compile re q"
  shows "\<exists>e. run_search re frame q = (Raised e, frame)"
  using assms apply_filters_raises [OF assms(2), of frame]
  by (auto simp: run_search_def)

lemma run_search_compiles:
  assumes "any_field q" and "patterns_compile re q"
  shows "run_search re frame q =
     (if validation_errors q \<noteq> [] then
        Showerror ''Search Error'' (join [CHR 0x0A] (validation_errors q))
      else if single_pass re frame q = [] then Showerror ''Search Error'' no_results_msg
      else ResultsWindow (single_pass re frame q), frame)"
  using assms
  by (simp add: run_search_def apply_filters_compiles show_results_def no_results_msg_def)

lemma search_data_no_field:
  "\<not> any_field q \<Longrightarrow> search_data re frame q = Showerror ''Input Required'' empty_query_msg"
  by (simp add: search_data_def run_search_no_field)

lemma search_data_compiles:
  "any_field q \<Longrightarrow> patterns_compile re q \<Longrightarrow>
   search_data re frame q =
     (if validation_errors q \<noteq> [] then
        Showerror ''Search Error'' (join [CHR 0x0A] (validation_errors q))
      else if single_pass re frame q = [] then Showerror ''Search Error'' no_results_msg
      else ResultsWindow (single_pass re frame q))"
  by (simp add: search_data_def run_search_compiles)

lemma search_data_raised:
  "any_field q \<Longrightarrow> \<not> patterns_compile re q \<Longrightarrow> \<exists>e. search_data re frame q = Raised e"
  using run_search_raises [of q re frame] by (auto simp: search_data_def)

lemma search_data_raise_any_frame:
  "search_data re frame q = Raised e \<longleftrightarrow> search_data re frame' q = Raised e"
proof -
  have "search_data re f q = Raised e \<longleftrightarrow> any_field q \<and> apply_filters re f q = Inl e" for f
    by (auto simp: search_data_def run_search_def show_results_def split: sum.splits)
  then show ?thesis using apply_filters_raise_any_frame [of re frame q e frame']
      apply_filters_raise_any_frame [of re frame' q e frame] by blast
qed

lemma validation_errors_cases:
  "validation_errors q \<in>
     {[], [year_integer_msg], [year_range_msg], [rating_number_msg], [rating_range_msg],
      [year_integer_msg, rating_number_msg], [year_integer_msg, rating_range_msg],
      [year_range_msg, rating_number_msg], [year_range_msg, rating_range_msg]}"
  by (simp add: validation_errors_def year_errors_eq rating_errors_eq)

lemma validation_report_not_no_results:
  assumes "validation_errors q \<noteq> []"
  shows "join [CHR 0x0A] (validation_errors q) \<noteq> no_results_msg"
    and "no_results_msg \<notin> set (validation_errors q)"
    and "join [CHR 0x0A] (validation_errors q) \<noteq> empty_query_msg"
  using assms validation_errors_cases [of q]
  by (auto simp: msg_defs)

lemma applied_predicates_missing:
  assumes "(title r = None \<and> strip (title_entry q) \<noteq> []) \<or>
           (genre r = None \<and> strip (genre_entry q) \<noteq> []) \<or>
           (actors r = None \<and> strip (actor_entry q) \<noteq> []) \<or>
           (director r = None \<and> strip (director_entry q) \<noteq> [])"
  shows "\<not> applied_predicates re q r"
  using assms by (auto simp: applied_predicates_def applied_text_predicate_def split: sum.splits)

lemma year_only_query:
  assumes "strip raw \<noteq> []"
  shows "search_data re frame (no_query\<lparr>release_date_entry := raw\<rparr>) =
     (if year_errors (strip raw) \<noteq> [] then
        Showerror ''Search Error'' (join [CHR 0x0A] (year_errors (strip raw)))
      else if filter (year_predicate (strip raw)) frame = [] then
        Showerror ''Search Error'' no_results_msg
      else ResultsWindow (filter (year_predicate (strip raw)) frame))"
proof -
  let ?q = "no_query\<lparr>release_date_entry := raw\<rparr>"
  have af: "any_field ?q" using assms by (simp add: any_field_def no_query_def)
  have pc: "patterns_compile re ?q"
    by (simp add: patterns_compile_def no_query_def strip_Nil compiles_Nil)
  have ve: "validation_errors ?q = year_errors (strip raw)"
    by (simp add: validation_errors_def no_query_def strip_Nil rating_errors_Nil)
  have sp: "single_pass re frame ?q = filter (year_predicate (strip raw)) frame"
    by (simp add: single_pass_def applied_predicates_def [abs_def] no_query_def strip_Nil
        applied_text_predicate_Nil rating_predicate_Nil)
  show ?thesis by (simp add: search_data_compiles [OF af pc] ve sp)
qed

lemma rating_only_query:
  assumes "strip raw \<noteq> []"
  shows "search_data re frame (no_query\<lparr>rating_entry := raw\<rparr>) =
     (if rating_errors (strip raw) \<noteq> [] then
        Showerror ''Search Error'' (join [CHR 0x0A] (rating_errors (strip raw)))
      else if filter (rating_predicate (strip raw)) frame = [] then
        Showerror ''Search Error'' no_results_msg
      else ResultsWindow (filter (rating_predicate (strip raw)) frame))"
proof -
  let ?q = "no_query\<lparr>rating_entry := raw\<rparr>"
  have af: "any_field ?q" using assms by (simp add: any_field_def no_query_def)
  have pc: "patterns_compile re ?q"
    by (simp add: patterns_compile_def no_query_def strip_Nil compiles_Nil)
  have ve: "validation_errors ?q = rating_errors (strip raw)"
    by (simp add: validation_errors_def no_query_def strip_Nil year_errors_Nil)
  have sp: "single_pass re frame ?q = filter (rating_predicate (strip raw)) frame"
    by (simp add: single_pass_def applied_predicates_def [abs_def] no_query_def strip_Nil
        applied_text_predicate_Nil year_predicate_Nil)
  show ?thesis by (simp add: search_data_compiles [OF af pc] ve sp)
qed

text \<open>
  What holds of the validation errors for every engine: they are shown, joined by newlines,
  when every pattern compiles, and a results window never opens beside them.
\<close>

lemma validation_errors_any_field: "validation_errors q \<noteq> [] \<Longrightarrow> any_field q"
  by (auto simp: validation_errors_def any_field_def year_errors_eq rating_errors_eq
        split: if_splits)

lemma validation_errors_shown:
  assumes "validation_errors q \<noteq> []" and "patterns_compile re q"
  shows "search_data re frame q =
           Showerror ''Search Error'' (join [CHR 0x0A] (validation_errors q))"
  using assms validation_errors_any_field [OF assms(1)] by (simp add: search_data_compiles)

lemma validation_errors_never_results:
  assumes "validation_errors q \<noteq> []"
  shows "search_data re frame q \<noteq> ResultsWindow rows"
proof (cases "patterns_compile re q")
  case True
  then show ?thesis using validation_errors_shown [OF assms True, of frame] by simp
next
  case False
  with validation_errors_any_field [OF assms] obtain e where "search_data re frame q = Raised e"
    using search_data_raised by blast
  then show ?thesis by simp
qed

lemma both_errors_shown:
  assumes "strip (release_date_entry q) \<noteq> []" and "\<not> year_valid (strip (release_date_entry q))"
    and "strip (rating_entry q) \<noteq> []" and "\<not> rating_valid (strip (rating_entry q))"
    and "patterns_compile re q"
  shows "\<exists>m1 m2. (m1 = year_integer_msg \<or> m1 = year_range_msg) \<and>
           (m2 = rating_number_msg \<or> m2 = rating_range_msg) \<and>
           search_data re frame q = Showerror ''Search Error'' (m1 @ [CHR 0x0A] @ m2)"
proof -
  define m1 where
    "m1 = (if py_int (strip (release_date_entry q)) = None then year_integer_msg else year_range_msg)"
  define m2 where
    "m2 = (if py_float (strip (rating_entry q)) = None then rating_number_msg else rating_range_msg)"
  have ve: "validation_errors q = [m1, m2]"
    using assms(1-4) by (simp add: validation_errors_def year_errors_eq rating_errors_eq m1_def m2_def)
  then have "validation_errors q \<noteq> []" by simp
  from validation_errors_shown [OF this assms(5), of frame] ve
  have "search_data re frame q = Showerror ''Search Error'' (m1 @ [CHR 0x0A] @ m2)" by simp
  moreover have "m1 = year_integer_msg \<or> m1 = year_range_msg" by (simp add: m1_def)
  moreover have "m2 = rating_number_msg \<or> m2 = rating_range_msg" by (simp add: m2_def)
  ultimately show ?thesis by blast
qed

text \<open>
  On a text without special characters the engine \<open>py_re\<close> is the search of the text as a
  substring, letter case ignored.
\<close>

lemma re_step_plain:
  "mode st = Normal \<Longrightarrow> \<not> metachar c \<Longrightarrow> re_step st c = Inr (push_item (Lit c) st)"
  by (simp add: re_step_def metachar_def)

lemma re_parse_plain:
  "mode st = Normal \<Longrightarrow> \<forall>c \<in> set pat. \<not> metachar c \<Longrightarrow>
   re_parse st pat =
     re_finish (st\<lparr>items := rev (map (\<lambda>c. (Lit c, False)) pat) @ items st\<rparr>)"
proof (induction pat arbitrary: st)
  case Nil
  then show ?case by simp
next
  case (Cons c pat)
  have "re_parse st (c # pat) = re_parse (push_item (Lit c) st) pat"
    using Cons.prems by (simp add: re_step_plain)
  also have "\<dots> = re_finish ((push_item (Lit c) st)
      \<lparr>items := rev (map (\<lambda>c. (Lit c, False)) pat) @ items (push_item (Lit c) st)\<rparr>)"
    using Cons.prems by (intro Cons.IH) (simp_all add: push_item_def)
  also have "\<dots> = re_finish (st\<lparr>items := rev (map (\<lambda>c. (Lit c, False)) (c # pat)) @ items st\<rparr>)"
    using Cons.prems(1) by (simp add: push_item_def re_finish_def)
  finally show ?case .
qed

lemma seq_items_literal: "seq_items (rev (map (\<lambda>c. (Lit c, False)) pat)) = literal pat"
proof -
  have "seq_items (rev (map (\<lambda>c. (Lit c, False)) pat)) =
      foldr (\<lambda>c acc. seq (Lit c) acc) pat Empty"
    by (simp add: seq_items_def foldr_conv_fold rev_map fold_map comp_def)
  also have "\<dots> = literal pat" by (induction pat) simp_all
  finally show ?thesis .
qed

lemma re_compile_plain:
  "\<forall>c \<in> set pat. \<not> metachar c \<Longrightarrow> re_compile pat = Inr (literal pat)"
  by (simp add: re_compile_def re_parse_plain re_finish_def close_group_def seq_items_literal)

lemma literal_not_Never: "literal p \<noteq> Never"
proof (induction p)
  case Nil
  show ?case by simp
next
  case (Cons c p)
  then show ?case by (cases "literal p") simp_all
qed

lemma nullable_seq_Lit: "\<not> nullable (seq (Lit d) r)"
  by (cases r) simp_all

lemma deriv_seq_Lit:
  "r \<noteq> Never \<Longrightarrow> deriv c (seq (Lit d) r) = (if tolower c = tolower d then r else Never)"
  by (cases r) simp_all

lemma match_prefix_Never: "\<not> match_prefix Never s"
  by (induction s) simp_all

lemma match_prefix_literal: "match_prefix (literal p) s \<longleftrightarrow> prefix (lower p) (lower s)"
proof (induction p arbitrary: s)
  case Nil
  show ?case by (cases s) (simp_all add: lower_def)
next
  case (Cons d p)
  show ?case
  proof (cases s)
    case Nil
    then show ?thesis by (simp add: nullable_seq_Lit lower_def)
  next
    case (Cons c w)
    then show ?thesis
      using Cons.IH [of w]
      by (auto simp: nullable_seq_Lit deriv_seq_Lit literal_not_Never match_prefix_Never lower_def)
  qed
qed

lemma re_search_literal:
  "p \<noteq> [] \<Longrightarrow> re_search (literal p) s \<longleftrightarrow> contains_ci p s"
proof (induction s)
  case Nil
  then show ?case by (cases p) (simp_all add: contains_ci_def lower_def nullable_seq_Lit)
next
  case (Cons c w)
  have "re_search (literal p) (c # w) \<longleftrightarrow>
      match_prefix (literal p) (c # w) \<or> re_search (literal p) w"
    by simp
  also have "\<dots> \<longleftrightarrow> prefix (lower p) (lower (c # w)) \<or> sublist (lower p) (lower w)"
    using Cons.IH [OF Cons.prems] by (simp only: match_prefix_literal contains_ci_def)
  also have "\<dots> \<longleftrightarrow> contains_ci p (c # w)"
    by (simp add: contains_ci_def lower_def sublist_Cons_right)
  finally show ?case .
qed

lemma py_re_plain:
  assumes "pat \<noteq> []" and "\<forall>c \<in> set pat. \<not> metachar c"
  shows "\<exists>found. py_re pat = Inr found \<and> (\<forall>s. found s = contains_ci pat s)"
  using assms by (simp add: py_re_def re_compile_plain re_search_literal)

lemma applied_text_predicate_plain:
  assumes "tq \<noteq> []" and "\<forall>c \<in> set tq. \<not> metachar c"
  shows "applied_text_predicate py_re col tq r \<longleftrightarrow> (\<exists>s. col r = Some s \<and> contains_ci tq s)"
proof -
  from py_re_plain [OF assms] obtain found
    where "py_re tq = Inr found" and "\<forall>s. found s = contains_ci tq s" by blast
  with assms(1) show ?thesis by (simp add: applied_text_predicate_def split: option.splits)
qed

lemma matrix_query:
  "search_data py_re [matrix_reloaded] (no_query\<lparr>title_entry := ''matrix''\<rparr>) =
     ResultsWindow [matrix_reloaded]"
  by code_simp

text \<open>The scenarios with the row of Inception, for every engine (no text field is used).\<close>

lemma scenario_1800:
  "search_data re [inception] (no_query\<lparr>release_date_entry := ''1800''\<rparr>) =
     Showerror ''Search Error'' year_range_msg"
proof -
  have "year_errors ''1800'' = [year_range_msg]"
    by (simp add: year_errors_eq year_valid_def py_int_1800)
  then show ?thesis
    using year_only_query [of "''1800''" re "[inception]"] by (simp add: strip_1800)
qed

lemma scenario_2010_8:
  "search_data re [inception] (no_query\<lparr>release_date_entry := ''2010'', rating_entry := ''8''\<rparr>) =
     ResultsWindow [inception]"
proof -
  let ?q = "no_query\<lparr>release_date_entry := ''2010'', rating_entry := ''8''\<rparr>"
  have af: "any_field ?q" by (simp add: any_field_def no_query_def strip_2010)
  have pc: "patterns_compile re ?q"
    by (simp add: patterns_compile_def no_query_def strip_Nil compiles_Nil)
  have ve: "validation_errors ?q = []"
    by (simp add: validation_errors_def no_query_def strip_2010 strip_8 year_errors_eq
        rating_errors_eq year_valid_def rating_valid_def py_int_2010 py_float_8)
  have sp: "single_pass re [inception] ?q = [inception]"
    by (simp add: single_pass_def applied_predicates_def no_query_def strip_Nil strip_2010 strip_8
        applied_text_predicate_Nil year_predicate_def rating_predicate_def year_valid_def
        py_int_2010 py_float_8 inception_def)
  show ?thesis by (simp add: search_data_compiles [OF af pc] ve sp)
qed

text \<open>
  What holds for every engine, with the tests that the blocks apply: when the patterns
  compile, the six successive filters are one filter with the conjunction of the tests, and
  "No results found" is shown exactly when no row passes it.
\<close>

lemma no_results_shown_iff:
  "search_data re frame q = Showerror ''Search Error'' no_results_msg \<longleftrightarrow>
     any_field q \<and> validation_errors q = [] \<and> patterns_compile re q \<and>
     single_pass re frame q = []"
proof (cases "any_field q")
  case False
  then show ?thesis by (simp add: search_data_no_field msg_defs)
next
  case af: True
  show ?thesis
  proof (cases "patterns_compile re q")
    case False
    with af obtain e where "search_data re frame q = Raised e"
      using search_data_raised by blast
    with False show ?thesis by simp
  next
    case pc: True
    show ?thesis
    proof (cases "validation_errors q = []")
      case True
      with af pc show ?thesis by (simp add: search_data_compiles)
    next
      case False
      with af pc validation_report_not_no_results [OF False] show ?thesis
        by (simp add: search_data_compiles)
    qed
  qed
qed

lemma error_dialog_cases:
  assumes "search_data re frame q = Showerror t m"
  shows "(t = ''Input Required'' \<and> m = empty_query_msg \<and> \<not> any_field q) \<or>
         (t = ''Search Error'' \<and> m = no_results_msg \<and> any_field q \<and> validation_errors q = []) \<or>
         (t = ''Search Error'' \<and> m = join [CHR 0x0A] (validation_errors q) \<and> any_field q \<and>
          validation_errors q \<noteq> [] \<and> no_results_msg \<notin> set (validation_errors q) \<and>
          m \<noteq> no_results_msg)"
proof (cases "any_field q")
  case False
  with assms show ?thesis by (simp add: search_data_no_field)
next
  case af: True
  show ?thesis
  proof (cases "patterns_compile re q")
    case False
    with af obtain e where "search_data re frame q = Raised e"
      using search_data_raised by blast
    with assms show ?thesis by simp
  next
    case pc: True
    show ?thesis
    proof (cases "validation_errors q = []")
      case True
      with af pc assms show ?thesis by (simp add: search_data_compiles split: if_splits)
    next
      case False
      with af pc assms validation_report_not_no_results [OF False] show ?thesis
        by (simp add: search_data_compiles)
    qed
  qed
qed

lemma results_are_single_pass:
  assumes "any_field q" and "validation_errors q = []" and "patterns_compile re q"
    and "single_pass re frame q \<noteq> []"
  shows "search_data re frame q = ResultsWindow (single_pass re frame q) \<and>
         subseq (single_pass re frame q) frame"
  using assms by (simp add: search_data_compiles single_pass_def)

text \<open>
  With the engine \<open>py_re\<close> and text fields without special characters, the tests that the
  blocks apply are the predicates of the specification, and the call shows the match set of
  the specification, or "No results found" when it is empty.
\<close>

lemma plain_text_compiles: "plain_text tq \<Longrightarrow> compiles py_re tq"
proof (cases "tq = []")
  case True
  then show ?thesis by (simp add: compiles_def)
next
  case False
  assume "plain_text tq"
  then have "\<forall>c \<in> set tq. \<not> metachar c" by (simp add: plain_text_def list_all_iff)
  from py_re_plain [OF False this] show ?thesis by (auto simp: compiles_def)
qed

lemma applied_text_predicate_is_spec:
  assumes "plain_text tq"
  shows "applied_text_predicate py_re col tq = spec_text_predicate col tq"
proof (cases "tq = []")
  case True
  then show ?thesis by (simp add: applied_text_predicate_def spec_text_predicate_def fun_eq_iff)
next
  case False
  from assms have plain: "\<forall>c \<in> set tq. \<not> metachar c" by (simp add: plain_text_def list_all_iff)
  show ?thesis
  proof
    fix r
    show "applied_text_predicate py_re col tq r = spec_text_predicate col tq r"
      using applied_text_predicate_plain [OF False plain, of col r] False
      by (cases "col r") (simp_all add: spec_text_predicate_def)
  qed
qed

lemma single_pass_is_spec_match_set:
  assumes "plain_query q"
  shows "single_pass py_re frame q = spec_match_set frame q"
proof -
  from assms have "applied_predicates py_re q = spec_predicates q"
    by (simp add: plain_query_def applied_predicates_def [abs_def] spec_predicates_def [abs_def]
        applied_text_predicate_is_spec)
  then show ?thesis by (simp add: single_pass_def spec_match_set_def)
qed

lemma plain_query_meets_spec:
  assumes "plain_query q" and "any_field q" and "validation_errors q = []"
  shows "search_data py_re frame q =
     (if spec_match_set frame q = [] then Showerror ''Search Error'' no_results_msg
      else ResultsWindow (spec_match_set frame q))"
proof -
  from assms(1) have "patterns_compile py_re q"
    by (simp add: plain_query_def patterns_compile_def plain_text_compiles)
  with assms(2,3) show ?thesis
    by (simp add: search_data_compiles single_pass_is_spec_match_set [OF assms(1)])
qed

section \<open>The claims\<close>

text \<open>
  Claim C1: "for every dataset and every query in which at least one field accumulates a
  validation error, the filter returns only the joined list of validation errors and never
  returns a dataset". A results window never opens (\<open>validation_errors_never_results\<close>), and
  the errors are shown when every pattern compiles (\<open>validation_errors_shown\<close>); but the block
  of the actor runs after the release date has been refused, and a pattern that does not
  compile raises \<^verbatim>\<open>re.error\<close> there. With the release date \<^verbatim>\<open>abc\<close> and the actor \<^verbatim>\<open>(\<close> the
  call ends with the exception: the accumulated message is never shown.
\<close>

theorem validation_errors_lost_when_pattern_fails:
  "validation_errors (no_query\<lparr>release_date_entry := ''abc'', actor_entry := ''(''\<rparr>) =
     [year_integer_msg] \<and>
   search_data py_re [inception] (no_query\<lparr>release_date_entry := ''abc'', actor_entry := ''(''\<rparr>) =
     Raised PatternError"
  by (intro conjI; code_simp)

text \<open>
  Claim C2: for every year text that is not empty after \<^verbatim>\<open>strip\<close>: if it parses as an
  integer between 1920 and 2022, the block keeps exactly the rows whose year equals it, and
  a query with this field alone shows these rows (or "No results found" when there is none);
  otherwise the block appends one of the two messages about the year and leaves the rows
  as they are, and a query with this field alone shows this message only. For the frame
  with the row of Inception alone, the year \<^verbatim>\<open>1800\<close> gives the message about the range only.
\<close>

theorem year_field_validated_then_exact:
  assumes "strip raw \<noteq> []"
  shows "(year_valid (strip raw) \<longrightarrow>
            (\<exists>y. py_int (strip raw) = Some y \<and> 1920 \<le> y \<and> y \<le> 2022 \<and>
                 release_date_filter (strip raw) st =
                   st\<lparr>filtered_data := filter (\<lambda>r. year r = Some y) (filtered_data st)\<rparr> \<and>
                 search_data re frame (no_query\<lparr>release_date_entry := raw\<rparr>) =
                   (if filter (\<lambda>r. year r = Some y) frame = []
                    then Showerror ''Search Error'' no_results_msg
                    else ResultsWindow (filter (\<lambda>r. year r = Some y) frame)))) \<and>
         (\<not> year_valid (strip raw) \<longrightarrow>
            (\<exists>m. (if py_int (strip raw) = None then m = year_integer_msg else m = year_range_msg) \<and>
                 release_date_filter (strip raw) st = st\<lparr>error_msgs := error_msgs st @ [m]\<rparr> \<and>
                 search_data re frame (no_query\<lparr>release_date_entry := raw\<rparr>) =
                   Showerror ''Search Error'' m)) \<and>
         search_data re [inception] (no_query\<lparr>release_date_entry := ''1800''\<rparr>) =
           Showerror ''Search Error'' year_range_msg"
proof (intro conjI impI)
  assume v: "year_valid (strip raw)"
  then obtain y where y: "py_int (strip raw) = Some y" "1920 \<le> y" "y \<le> 2022"
    by (auto simp: year_valid_def split: option.splits)
  have p: "year_predicate (strip raw) = (\<lambda>r. year r = Some y)"
    using v y by (simp add: year_predicate_def [abs_def])
  have e: "year_errors (strip raw) = []" using v by (simp add: year_errors_eq)
  have "release_date_filter (strip raw) st =
          st\<lparr>filtered_data := filter (\<lambda>r. year r = Some y) (filtered_data st)\<rparr>"
    by (simp add: release_date_filter_eq p e)
  moreover have "search_data re frame (no_query\<lparr>release_date_entry := raw\<rparr>) =
      (if filter (\<lambda>r. year r = Some y) frame = [] then Showerror ''Search Error'' no_results_msg
       else ResultsWindow (filter (\<lambda>r. year r = Some y) frame))"
    by (simp add: year_only_query [OF assms] p e)
  ultimately show "\<exists>y. py_int (strip raw) = Some y \<and> 1920 \<le> y \<and> y \<le> 2022 \<and>
      release_date_filter (strip raw) st =
        st\<lparr>filtered_data := filter (\<lambda>r. year r = Some y) (filtered_data st)\<rparr> \<and>
      search_data re frame (no_query\<lparr>release_date_entry := raw\<rparr>) =
        (if filter (\<lambda>r. year r = Some y) frame = [] then Showerror ''Search Error'' no_results_msg
         else ResultsWindow (filter (\<lambda>r. year r = Some y) frame))"
    using y by blast
next
  assume nv: "\<not> year_valid (strip raw)"
  define m where "m = (if py_int (strip raw) = None then year_integer_msg else year_range_msg)"
  have p: "year_predicate (strip raw) = (\<lambda>r. True)"
    using nv by (simp add: year_predicate_def [abs_def])
  have e: "year_errors (strip raw) = [m]"
    using nv assms by (simp add: year_errors_eq m_def)
  have "release_date_filter (strip raw) st = st\<lparr>error_msgs := error_msgs st @ [m]\<rparr>"
    by (simp add: release_date_filter_eq p e)
  moreover have "search_data re frame (no_query\<lparr>release_date_entry := raw\<rparr>) =
      Showerror ''Search Error'' m"
    by (simp add: year_only_query [OF assms] e)
  moreover have "if py_int (strip raw) = None then m = year_integer_msg else m = year_range_msg"
    by (simp add: m_def)
  ultimately show "\<exists>m. (if py_int (strip raw) = None then m = year_integer_msg
        else m = year_range_msg) \<and>
      release_date_filter (strip raw) st = st\<lparr>error_msgs := error_msgs st @ [m]\<rparr> \<and>
      search_data re frame (no_query\<lparr>release_date_entry := raw\<rparr>) = Showerror ''Search Error'' m"
    by blast
next
  show "search_data re [inception] (no_query\<lparr>release_date_entry := ''1800''\<rparr>) =
      Showerror ''Search Error'' year_range_msg"
    by (rule scenario_1800)
qed

theorem year_field_validated_then_exact_witness:
  "release_date_filter (strip '' 2010 '')
       \<lparr>data = sample_frame, filtered_data = sample_frame, error_msgs = []\<rparr> =
     \<lparr>data = sample_frame, filtered_data = [inception, untitled], error_msgs = []\<rparr> \<and>
   search_data py_re sample_frame (no_query\<lparr>release_date_entry := '' 2010 ''\<rparr>) =
     ResultsWindow [inception, untitled] \<and>
   search_data py_re sample_frame (no_query\<lparr>release_date_entry := ''20x0''\<rparr>) =
     Showerror ''Search Error'' year_integer_msg"
proof -
  have ne1: "strip '' 2010 '' \<noteq> []" by code_simp
  have v1: "year_valid (strip '' 2010 '')" by code_simp
  have y1: "py_int (strip '' 2010 '') = Some 2010" by code_simp
  have f1: "filter (\<lambda>r. year r = Some 2010) sample_frame = [inception, untitled]" by code_simp
  have ne2: "strip ''20x0'' \<noteq> []" by code_simp
  have v2: "\<not> year_valid (strip ''20x0'')" by code_simp
  have y2: "py_int (strip ''20x0'') = None" by code_simp
  from year_field_validated_then_exact [OF ne1,
      of "\<lparr>data = sample_frame, filtered_data = sample_frame, error_msgs = []\<rparr>" py_re sample_frame]
    v1 y1 f1
  have a: "release_date_filter (strip '' 2010 '')
       \<lparr>data = sample_frame, filtered_data = sample_frame, error_msgs = []\<rparr> =
     \<lparr>data = sample_frame, filtered_data = [inception, untitled], error_msgs = []\<rparr> \<and>
   search_data py_re sample_frame (no_query\<lparr>release_date_entry := '' 2010 ''\<rparr>) =
     ResultsWindow [inception, untitled]"
    by auto
  from year_field_validated_then_exact [OF ne2, of undefined py_re sample_frame] v2 y2
  have b: "search_data py_re sample_frame (no_query\<lparr>release_date_entry := ''20x0''\<rparr>) =
     Showerror ''Search Error'' year_integer_msg"
    by auto
  from a b show ?thesis by simp
qed

text \<open>
  Claim C3: for every rating text that is not empty after \<^verbatim>\<open>strip\<close>: if it parses as a float
  between 1 and 10, the block keeps exactly the rows whose rating is at least this number,
  and a query with this field alone shows these rows; otherwise the block appends one of the
  two messages about the rating. For the frame with the row of Inception alone (rating 8.8),
  the year \<^verbatim>\<open>2010\<close> with the rating \<^verbatim>\<open>8\<close> shows this row: the rating is a lower bound.
  The number compared is the float that \<^verbatim>\<open>float\<close> returns: the text \<^verbatim>\<open>10.0000000000000001\<close>
  is read as 10.0 and is valid (\<open>py_float_rounds\<close>).
\<close>

theorem rating_field_validated_then_lower_bound:
  assumes "strip raw \<noteq> []"
  shows "(rating_valid (strip raw) \<longrightarrow>
            (\<exists>x. py_float (strip raw) = Some x \<and> fle (Fin 1) x \<and> fle x (Fin 10) \<and>
                 rating_filter (strip raw) st =
                   st\<lparr>filtered_data := filter (\<lambda>r. fle x (rating r)) (filtered_data st)\<rparr> \<and>
                 search_data re frame (no_query\<lparr>rating_entry := raw\<rparr>) =
                   (if filter (\<lambda>r. fle x (rating r)) frame = []
                    then Showerror ''Search Error'' no_results_msg
                    else ResultsWindow (filter (\<lambda>r. fle x (rating r)) frame)))) \<and>
         (\<not> rating_valid (strip raw) \<longrightarrow>
            (\<exists>m. (if py_float (strip raw) = None then m = rating_number_msg
                  else m = rating_range_msg) \<and>
                 rating_filter (strip raw) st = st\<lparr>error_msgs := error_msgs st @ [m]\<rparr> \<and>
                 search_data re frame (no_query\<lparr>rating_entry := raw\<rparr>) =
                   Showerror ''Search Error'' m)) \<and>
         search_data re [inception]
             (no_query\<lparr>release_date_entry := ''2010'', rating_entry := ''8''\<rparr>) =
           ResultsWindow [inception] \<and>
         py_float ''8'' = Some (Fin 8) \<and> py_float ''8.8'' = Some (rating inception)"
proof (intro conjI impI)
  assume v: "rating_valid (strip raw)"
  then obtain x where x: "py_float (strip raw) = Some x" "fle (Fin 1) x" "fle x (Fin 10)"
    by (auto simp: rating_valid_def split: option.splits)
  have p: "rating_predicate (strip raw) = (\<lambda>r. fle x (rating r))"
    using x by (simp add: rating_predicate_def [abs_def])
  have e: "rating_errors (strip raw) = []" using v by (simp add: rating_errors_eq)
  have "rating_filter (strip raw) st =
          st\<lparr>filtered_data := filter (\<lambda>r. fle x (rating r)) (filtered_data st)\<rparr>"
    by (simp add: rating_filter_eq p e)
  moreover have "search_data re frame (no_query\<lparr>rating_entry := raw\<rparr>) =
      (if filter (\<lambda>r. fle x (rating r)) frame = [] then Showerror ''Search Error'' no_results_msg
       else ResultsWindow (filter (\<lambda>r. fle x (rating r)) frame))"
    by (simp add: rating_only_query [OF assms] p e)
  ultimately show "\<exists>x. py_float (strip raw) = Some x \<and> fle (Fin 1) x \<and> fle x (Fin 10) \<and>
      rating_filter (strip raw) st =
        st\<lparr>filtered_data := filter (\<lambda>r. fle x (rating r)) (filtered_data st)\<rparr> \<and>
      search_data re frame (no_query\<lparr>rating_entry := raw\<rparr>) =
        (if filter (\<lambda>r. fle x (rating r)) frame = [] then Showerror ''Search Error'' no_results_msg
         else ResultsWindow (filter (\<lambda>r. fle x (rating r)) frame))"
    using x by blast
next
  assume nv: "\<not> rating_valid (strip raw)"
  define m where "m = (if py_float (strip raw) = None then rating_number_msg else rating_range_msg)"
  have p: "rating_predicate (strip raw) = (\<lambda>r. True)"
    using nv by (auto simp: rating_predicate_def [abs_def] rating_valid_def split: option.splits)
  have e: "rating_errors (strip raw) = [m]"
    using nv assms by (simp add: rating_errors_eq m_def)
  have "rating_filter (strip raw) st = st\<lparr>error_msgs := error_msgs st @ [m]\<rparr>"
    by (simp add: rating_filter_eq p e)
  moreover have "search_data re frame (no_query\<lparr>rating_entry := raw\<rparr>) =
      Showerror ''Search Error'' m"
    by (simp add: rating_only_query [OF assms] e)
  moreover have "if py_float (strip raw) = None then m = rating_number_msg else m = rating_range_msg"
    by (simp add: m_def)
  ultimately show "\<exists>m. (if py_float (strip raw) = None then m = rating_number_msg
        else m = rating_range_msg) \<and>
      rating_filter (strip raw) st = st\<lparr>error_msgs := error_msgs st @ [m]\<rparr> \<and>
      search_data re frame (no_query\<lparr>rating_entry := raw\<rparr>) = Showerror ''Search Error'' m"
    by blast
next
  show "search_data re [inception]
      (no_query\<lparr>release_date_entry := ''2010'', rating_entry := ''8''\<rparr>) = ResultsWindow [inception]"
    by (rule scenario_2010_8)
next
  show "py_float ''8'' = Some (Fin 8)" by (rule py_float_8)
next
  show "py_float ''8.8'' = Some (rating inception)" by (rule py_float_rating_inception)
qed

theorem rating_field_validated_then_lower_bound_witness:
  "search_data py_re sample_frame (no_query\<lparr>rating_entry := ''8''\<rparr>) =
     ResultsWindow [inception, untitled] \<and>
   search_data py_re sample_frame (no_query\<lparr>rating_entry := ''11''\<rparr>) =
     Showerror ''Search Error'' rating_range_msg \<and>
   search_data py_re sample_frame (no_query\<lparr>rating_entry := ''eight''\<rparr>) =
     Showerror ''Search Error'' rating_number_msg"
proof -
  have ne1: "strip ''8'' \<noteq> []" by code_simp
  have v1: "rating_valid (strip ''8'')" by code_simp
  have x1: "py_float (strip ''8'') = Some (Fin 8)" by code_simp
  have f1: "filter (\<lambda>r. fle (Fin 8) (rating r)) sample_frame = [inception, untitled]" by code_simp
  have ne2: "strip ''11'' \<noteq> []" by code_simp
  have v2: "\<not> rating_valid (strip ''11'')" by code_simp
  have x2: "py_float (strip ''11'') \<noteq> None" by code_simp
  have ne3: "strip ''eight'' \<noteq> []" by code_simp
  have v3: "\<not> rating_valid (strip ''eight'')" by code_simp
  have x3: "py_float (strip ''eight'') = None" by code_simp
  from rating_field_validated_then_lower_bound [OF ne1, of undefined py_re sample_frame] v1 x1 f1
  have a: "search_data py_re sample_frame (no_query\<lparr>rating_entry := ''8''\<rparr>) =
     ResultsWindow [inception, untitled]"
    by auto
  from rating_field_validated_then_lower_bound [OF ne2, of undefined py_re sample_frame] v2 x2
  have b: "search_data py_re sample_frame (no_query\<lparr>rating_entry := ''11''\<rparr>) =
     Showerror ''Search Error'' rating_range_msg"
    by auto
  from rating_field_validated_then_lower_bound [OF ne3, of undefined py_re sample_frame] v3 x3
  have c: "search_data py_re sample_frame (no_query\<lparr>rating_entry := ''eight''\<rparr>) =
     Showerror ''Search Error'' rating_number_msg"
    by auto
  from a b c show ?thesis by simp
qed

text \<open>
  Claim C4: "the predicate of a text field holds iff the query string occurs as a
  case-insensitive substring of the attribute". The comments of the source say the same
  ("titles containing the query string, case insensitive"), but \<^verbatim>\<open>str.contains\<close> is called
  without \<^verbatim>\<open>regex=False\<close> and takes the text as a regular expression. The title query \<^verbatim>\<open>.\<close>
  shows the row titled Inception, whose title has no full stop. A query without special
  characters does behave as the claim says (\<open>applied_text_predicate_is_spec\<close>); so does \<^verbatim>\<open>matrix\<close> on
  "The Matrix Reloaded" (\<open>matrix_query\<close>).
\<close>

theorem text_query_is_a_regular_expression:
  "search_data py_re [inception] (no_query\<lparr>title_entry := ''.''\<rparr>) = ResultsWindow [inception] \<and>
   \<not> contains_ci ''.'' ''Inception'' \<and>
   search_data py_re [inception] (no_query\<lparr>title_entry := ''(''\<rparr>) = Raised PatternError"
  by (intro conjI; code_simp)

text \<open>
  Claim C5: when each of the six entries is empty or holds white space only, the call shows
  the single error "Please enter search criteria in at least one field." under the title
  "Input Required" and leaves the frame alone, whatever the frame and whatever the engine
  does (no field is evaluated, nothing is filtered, no other message is joined to it).
\<close>

theorem empty_query_short_circuit:
  assumes "\<forall>s \<in> set [title_entry q, genre_entry q, release_date_entry q, rating_entry q,
                      actor_entry q, director_entry q]. \<forall>c \<in> set s. isspace c"
  shows "run_search re frame q =
           (Showerror ''Input Required'' ''Please enter search criteria in at least one field.'',
            frame)"
  using assms run_search_no_field [of q re frame]
  by (simp add: any_field_iff empty_query_msg_def)

theorem empty_query_short_circuit_witness:
  "run_search py_re sample_frame (no_query\<lparr>title_entry := ''  '', rating_entry := [CHR 0x09]\<rparr>) =
     (Showerror ''Input Required'' ''Please enter search criteria in at least one field.'',
      sample_frame)"
  by (rule empty_query_short_circuit) (simp add: no_query_def isspace_def)

text \<open>
  Claim C6: "for every query that is not all empty, validation does not stop at the first
  error: if both the year and the rating are malformed, the report contains both messages,
  and no exception aborts mid-evaluation". Both messages are shown when every pattern
  compiles (\<open>both_errors_shown\<close>). But the blocks of the title and of the genre run before
  the two validations, and nothing catches the \<^verbatim>\<open>re.error\<close> of a pattern: with the title
  \<^verbatim>\<open>(\<close>, the year \<^verbatim>\<open>abc\<close> and the rating \<^verbatim>\<open>xyz\<close> the call ends with the exception and shows
  neither message.
\<close>

theorem pattern_error_aborts_validation:
  "validation_errors
     (no_query\<lparr>title_entry := ''('', release_date_entry := ''abc'', rating_entry := ''xyz''\<rparr>) =
     [year_integer_msg, rating_number_msg] \<and>
   search_data py_re [inception]
     (no_query\<lparr>title_entry := ''('', release_date_entry := ''abc'', rating_entry := ''xyz''\<rparr>) =
     Raised PatternError"
  by (intro conjI; code_simp)

text \<open>
  Claim C7: "the NoResults error is produced iff the query is well-formed (not all-empty and
  zero validation errors) and the conjunction of the active predicates matches zero records;
  a well-formed query matching zero records reports exactly the single NoResults error".
  With the predicates of the specification this fails on a text with a special character,
  since the blocks search for a regular expression. The title \<^verbatim>\<open>(\<close> on the frame with the
  row of Inception is well-formed and no title contains it, yet the call ends with
  \<^verbatim>\<open>re.error\<close> and shows no message; the title \<^verbatim>\<open>.\<close> matches no title either, yet the row is
  shown. For a query without special characters the claim holds (\<open>plain_query_meets_spec\<close>),
  and for every engine the message is shown exactly when no row passes the tests that the
  blocks apply (\<open>no_results_shown_iff\<close>), never beside another message
  (\<open>error_dialog_cases\<close>).
\<close>

theorem no_results_missed_on_special_characters:
  "any_field (no_query\<lparr>title_entry := ''(''\<rparr>) \<and>
   validation_errors (no_query\<lparr>title_entry := ''(''\<rparr>) = [] \<and>
   spec_match_set [inception] (no_query\<lparr>title_entry := ''(''\<rparr>) = [] \<and>
   search_data py_re [inception] (no_query\<lparr>title_entry := ''(''\<rparr>) = Raised PatternError \<and>
   any_field (no_query\<lparr>title_entry := ''.''\<rparr>) \<and>
   validation_errors (no_query\<lparr>title_entry := ''.''\<rparr>) = [] \<and>
   spec_match_set [inception] (no_query\<lparr>title_entry := ''.''\<rparr>) = [] \<and>
   search_data py_re [inception] (no_query\<lparr>title_entry := ''.''\<rparr>) = ResultsWindow [inception]"
  by (intro conjI; code_simp)

text \<open>
  Claim C8: "for every dataset and every well-formed query with a non-empty match set, the
  progressive filtering returns exactly the records satisfying the logical AND of all active
  predicates, in the original dataset order". The six successive filters are one filter
  with the conjunction of the tests that the blocks apply, in the order of the frame
  (\<open>apply_filters_compiles\<close>, \<open>results_are_single_pass\<close>), and for a query without special
  characters these are the predicates of the specification (\<open>plain_query_meets_spec\<close>). But
  the test of a text block is a search for a regular expression: with the title \<^verbatim>\<open>r.\<close> the
  match set of the specification is the row of "Mr. Nobody" alone, and the call shows
  "The Matrix Reloaded" as well; with the title \<^verbatim>\<open>(\<close> the match set is the row of
  "(500) Days of Summer", and the call ends with \<^verbatim>\<open>re.error\<close>.
\<close>

theorem progressive_filtering_differs_on_special_characters:
  "any_field (no_query\<lparr>title_entry := ''r.''\<rparr>) \<and>
   validation_errors (no_query\<lparr>title_entry := ''r.''\<rparr>) = [] \<and>
   spec_match_set [matrix_reloaded, mr_nobody] (no_query\<lparr>title_entry := ''r.''\<rparr>) = [mr_nobody] \<and>
   search_data py_re [matrix_reloaded, mr_nobody] (no_query\<lparr>title_entry := ''r.''\<rparr>) =
     ResultsWindow [matrix_reloaded, mr_nobody] \<and>
   spec_match_set [inception, days_of_summer] (no_query\<lparr>title_entry := ''(''\<rparr>) =
     [days_of_summer] \<and>
   search_data py_re [inception, days_of_summer] (no_query\<lparr>title_entry := ''(''\<rparr>) =
     Raised PatternError"
  by (intro conjI; code_simp)

text \<open>
  Claim C9: a call leaves the frame bound to \<open>data\<close> as it was, and a second call with the
  same entries on the frame that the first call left gives the same outcome: the same error
  dialog, the same exception, or the same rows in the same order.
\<close>

theorem search_twice_same_outcome:
  "snd (run_search re frame q) = frame \<and>
   run_search re (snd (run_search re frame q)) q = run_search re frame q"
proof -
  have "snd (run_search re frame q) = frame"
  proof (cases "any_field q")
    case False
    then show ?thesis by (simp add: run_search_no_field)
  next
    case af: True
    show ?thesis
    proof (cases "patterns_compile re q")
      case True
      with af show ?thesis by (simp add: run_search_compiles)
    next
      case False
      with af run_search_raises [of q re frame] show ?thesis by auto
    qed
  qed
  then show ?thesis by simp
qed

theorem search_twice_same_outcome_witness:
  "fst (run_search py_re sample_frame (no_query\<lparr>title_entry := ''matrix''\<rparr>)) =
     ResultsWindow [matrix_reloaded] \<and>
   snd (run_search py_re sample_frame (no_query\<lparr>title_entry := ''matrix''\<rparr>)) = sample_frame \<and>
   fst (run_search py_re
         (snd (run_search py_re sample_frame (no_query\<lparr>title_entry := ''matrix''\<rparr>)))
         (no_query\<lparr>title_entry := ''matrix''\<rparr>)) = ResultsWindow [matrix_reloaded]"
proof -
  have "fst (run_search py_re sample_frame (no_query\<lparr>title_entry := ''matrix''\<rparr>)) =
     ResultsWindow [matrix_reloaded]"
    by code_simp
  then show ?thesis
    using search_twice_same_outcome [of py_re sample_frame "no_query\<lparr>title_entry := ''matrix''\<rparr>"]
    by simp
qed

text \<open>
  Claim C10: a row whose title, genre, actors or director is missing is never among the
  rows shown for a query whose field on that attribute is not empty (even when the pattern
  matches the empty string); the missing cell gives \<open>False\<close> in the mask and raises
  nothing: whether a call raises does not depend on such a row being in the frame.
\<close>

theorem missing_text_is_no_match:
  assumes "(title r = None \<and> strip (title_entry q) \<noteq> []) \<or>
           (genre r = None \<and> strip (genre_entry q) \<noteq> []) \<or>
           (actors r = None \<and> strip (actor_entry q) \<noteq> []) \<or>
           (director r = None \<and> strip (director_entry q) \<noteq> [])"
  shows "(\<forall>rows. search_data re frame q = ResultsWindow rows \<longrightarrow> r \<notin> set rows) \<and>
         (\<forall>e. search_data re (r # frame) q = Raised e \<longleftrightarrow> search_data re frame q = Raised e) \<and>
         (\<forall>tq found. re tq = Inr found \<longrightarrow> str_contains re tq [None] = Inr [False])"
proof -
  have "r \<notin> set rows" if res: "search_data re frame q = ResultsWindow rows" for rows
  proof (cases "any_field q \<and> patterns_compile re q")
    case True
    with res have "rows = single_pass re frame q"
      by (simp add: search_data_compiles split: if_splits)
    then show ?thesis using applied_predicates_missing [OF assms, of re]
      by (simp add: single_pass_def)
  next
    case False
    show ?thesis
    proof (cases "any_field q")
      case False
      then show ?thesis using res by (simp add: search_data_no_field)
    next
      case True
      with False have "\<not> patterns_compile re q" by simp
      with True obtain e where "search_data re frame q = Raised e"
        using search_data_raised by blast
      with res show ?thesis by simp
    qed
  qed
  moreover have "search_data re (r # frame) q = Raised e \<longleftrightarrow> search_data re frame q = Raised e" for e
    by (rule search_data_raise_any_frame)
  moreover have "str_contains re tq [None] = Inr [False]" if "re tq = Inr found" for tq found
    using that by (simp add: str_contains_def)
  ultimately show ?thesis by blast
qed

theorem missing_text_is_no_match_witness:
  "search_data py_re sample_frame (no_query\<lparr>title_entry := ''x*''\<rparr>) =
     ResultsWindow [inception, matrix_reloaded] \<and>
   untitled \<notin> set [inception, matrix_reloaded] \<and>
   str_contains py_re ''x*'' [None] = Inr [False]"
proof -
  let ?q = "no_query\<lparr>title_entry := ''x*''\<rparr>"
  have h: "(title untitled = None \<and> strip (title_entry ?q) \<noteq> []) \<or>
           (genre untitled = None \<and> strip (genre_entry ?q) \<noteq> []) \<or>
           (actors untitled = None \<and> strip (actor_entry ?q) \<noteq> []) \<or>
           (director untitled = None \<and> strip (director_entry ?q) \<noteq> [])"
    by code_simp
  have r: "search_data py_re sample_frame ?q = ResultsWindow [inception, matrix_reloaded]"
    by code_simp
  obtain found where c: "py_re ''x*'' = Inr found"
    by (cases "py_re ''x*''") (simp_all add: py_re_def re_compile_def re_step_def re_finish_def
        push_item_def isalnum_ascii_def split: sum.splits)
  from missing_text_is_no_match [OF h, of py_re sample_frame] r c show ?thesis by blast
qed

end
